theory Spec2Isabelle
  imports Main "HOL-Library.Multiset"
begin

section \<open>The playground controller (src/editors/playgroundController.ts)\<close>

text \<open>
  The controller is a class with mutable fields whose methods call the editor host, the
  language server controller (the worker), the telemetry controller, the connection
  controller and an output channel. The embedding is a record of the fields, extended by
  what the collaborators hold (the output channel's lines, the active connection model, the
  configuration value) and by a log of every call made on a collaborator, oldest first.
  Each method, listener and continuation after an \<^verbatim>\<open>await\<close> is a function from
  state to state; a turn of the event loop is one such function applied to the state.
  Calls on the logger are left out of the log, and the commands that create or open a
  playground document and \<^verbatim>\<open>deactivate\<close> are not embedded.
\<close>

subsection \<open>Values of the editor host\<close>

record Position =
  line :: nat
  character :: nat

record Range =
  start :: Position
  end' :: Position

definition startLine :: "Range \<Rightarrow> nat" where
  "startLine r = line (start r)"

text \<open>
  A text document of the host. \<^verbatim>\<open>getText()\<close> and \<^verbatim>\<open>getText(range)\<close> are the host's
  and enter as the fields \<open>getText None\<close> and \<open>getText (Some range)\<close>; \<^verbatim>\<open>lineAt(n).text\<close>
  is \<open>lineAt n\<close>, which is \<open>None\<close> where the host throws (no such line).
\<close>

record TextDocument =
  languageId :: string
  getText :: "Range option \<Rightarrow> string"
  lineAt :: "nat \<Rightarrow> string option"

record TextEditor =
  document :: TextDocument
  selections :: "Range list"

text \<open>The event of \<^verbatim>\<open>onDidChangeTextEditorSelection\<close>.\<close>

record TextEditorSelectionChangeEvent =
  textEditor :: TextEditor
  eventSelections :: "Range list"

subsection \<open>Strings of the language\<close>

text \<open>
  \<^verbatim>\<open>String.prototype.trim\<close> removes white space and line terminators at both ends; the
  characters of the model are bytes, so the white space is the ASCII part of it (tab, line
  feed, vertical tab, form feed, carriage return, space).
\<close>

definition isWhiteSpace :: "char \<Rightarrow> bool" where
  "isWhiteSpace c = (c \<in> set [CHR 0x09, CHR 0x0A, CHR 0x0B, CHR 0x0C, CHR 0x0D, CHR 0x20])"

definition trim :: "string \<Rightarrow> string" where
  "trim s = rev (dropWhile isWhiteSpace (rev (dropWhile isWhiteSpace s)))"

text \<open>\<^verbatim>\<open>Array.prototype.join('\n')\<close>.\<close>

fun joinNewline :: "string list \<Rightarrow> string" where
  "joinNewline [] = []"
| "joinNewline [x] = x"
| "joinNewline (x # y # ys) = x @ [CHR 0x0A] @ joinNewline (y # ys)"

text \<open>A string that may be \<^verbatim>\<open>undefined\<close> is truthy when it is defined and not empty.\<close>

definition truthy :: "string option \<Rightarrow> bool" where
  "truthy v = (case v of None \<Rightarrow> False | Some s \<Rightarrow> s \<noteq> [])"

text \<open>
  \<^verbatim>\<open>Array.prototype.sort(compare)\<close>, as an insertion sort that asks only the comparator:
  an element moves behind another one exactly when the comparator returns a positive
  number for the pair. The order the engine gives to ranges with the same start line,
  which this comparator does not separate, is the engine's own: the theorems of the
  claims speak of a sorted permutation and of the least start line only.
\<close>

fun insertBy :: "('a \<Rightarrow> 'a \<Rightarrow> int) \<Rightarrow> 'a \<Rightarrow> 'a list \<Rightarrow> 'a list" where
  "insertBy cmp x [] = [x]"
| "insertBy cmp x (y # ys) = (if cmp x y > 0 then y # insertBy cmp x ys else x # y # ys)"

definition arraySort :: "('a \<Rightarrow> 'a \<Rightarrow> int) \<Rightarrow> 'a list \<Rightarrow> 'a list" where
  "arraySort cmp xs = foldr (insertBy cmp) xs []"

text \<open>The comparator of both sorts: \<^verbatim>\<open>(a, b) => (a.start.line > b.start.line ? 1 : -1)\<close>.\<close>

definition compareStartLine :: "Range \<Rightarrow> Range \<Rightarrow> int" where
  "compareStartLine a b = (if line (start a) > line (start b) then 1 else - 1)"

subsection \<open>Values of the collaborators\<close>

text \<open>
  Modelled from the spec: the type \<^verbatim>\<open>ExecuteAllResult\<close> of \<^verbatim>\<open>utils/types\<close> is not
  among the sources. The spec: an ordered sequence of output records (each a rendered
  content string), or the sentinel "no result". The sentinel is \<open>None\<close>; every array,
  also the empty one, is truthy.
\<close>

record OutputItem =
  content :: string

type_synonym ExecuteAllResult = "OutputItem list option"

text \<open>The free-form driver options are a bag of named values; \<^verbatim>\<open>{}\<close> is the empty bag.\<close>

type_synonym DriverOptions = "(string \<times> string) list"

text \<open>The attributes of the active connection model that the controller reads.\<close>

record ConnectionAttributes =
  driverUrlWithSsh :: "string option"
  driverOptions :: "DriverOptions option"

text \<open>A value of the workspace configuration: \<^verbatim>\<open>get('confirmRunAll')\<close> is untyped.\<close>

datatype ConfigValue = CfgUndefined | CfgBool bool | CfgString string | CfgNumber int

text \<open>Every call the controller makes on a collaborator.\<close>

datatype Call =
    DisconnectFromServiceProvider
  | ConnectToServiceProvider string DriverOptions string
  | ExecuteAll string
  | CancelAll
  | TrackPlaygroundCodeExecuted ExecuteAllResult bool bool
  | ShowErrorMessage string
  | ShowInformationMessage string
  | ShowModalConfirmation string
  | WithProgress string
  | OutputClear
  | OutputAppendLine string
  | OutputShow
  | PartialExecutionCodeLensRefresh "Range option"
  | ActiveConnectionCodeLensRefresh

text \<open>A promise is pending, resolved with a value, or rejected with an error message.\<close>

datatype 'a Promise = Pending | Resolved 'a | Rejected string

text \<open>
  One activation of \<^verbatim>\<open>evaluatePlayground\<close>: whether it waits for the answer to the
  confirmation prompt, whether its \<^verbatim>\<open>executeAll\<close> request is outstanding at the worker,
  the promise of \<^verbatim>\<open>evaluateWithCancelModal\<close> and the promise \<^verbatim>\<open>evaluatePlayground\<close>
  returned.
\<close>

record Run =
  confirming :: bool
  executing :: bool
  modal :: "ExecuteAllResult Promise"
  outcome :: "bool Promise"

text \<open>The listeners of \<^verbatim>\<open>ACTIVE_CONNECTION_CHANGED\<close>, in the order of registration.\<close>

datatype Listener = DisconnectListener | ConnectListener

record PlaygroundController =
  activeTextEditor :: "TextEditor option"
  connectionString :: "string option"
  connectionOptions :: "DriverOptions option"
  selectedText :: "string option"
  codeToEvaluate :: string
  isPartialRun :: bool
  extensionPath :: string
  activeConnectionModel :: "ConnectionAttributes option"
  activeConnectionName :: string
  confirmRunAll :: ConfigValue
  outputChannel :: "string list"
  calls :: "Call list"
  runs :: "Run list"
  awaiting :: "Listener list"

text \<open>The state the constructor leaves, for an extension path and an active editor.\<close>

definition constructed :: "string \<Rightarrow> TextEditor option \<Rightarrow> PlaygroundController" where
  "constructed path ed =
     \<lparr> activeTextEditor =
         (case ed of None \<Rightarrow> None
          | Some e \<Rightarrow> if languageId (document e) \<noteq> ''Log'' then Some e else None),
       connectionString = None, connectionOptions = None, selectedText = None,
       codeToEvaluate = [], isPartialRun = False, extensionPath = path,
       activeConnectionModel = None, activeConnectionName = [],
       confirmRunAll = CfgUndefined, outputChannel = [], calls = [], runs = [],
       awaiting = [] \<rparr>"

definition call :: "Call list \<Rightarrow> PlaygroundController \<Rightarrow> PlaygroundController" where
  "call cs s = s\<lparr>calls := calls s @ cs\<rparr>"

subsection \<open>Reading the active editor\<close>

text \<open>
  \<^verbatim>\<open>getAllText\<close> and \<^verbatim>\<open>getSelectedText\<close>: the text of the active editor's document, and
  the empty string when there is no active editor.
\<close>

definition getAllText :: "PlaygroundController \<Rightarrow> string" where
  "getAllText s =
     (case activeTextEditor s of None \<Rightarrow> [] | Some ed \<Rightarrow> getText (document ed) None)"

definition getSelectedText :: "PlaygroundController \<Rightarrow> Range \<Rightarrow> string" where
  "getSelectedText s selection =
     (case activeTextEditor s of None \<Rightarrow> []
      | Some ed \<Rightarrow> getText (document ed) (Some selection))"

text \<open>\<^verbatim>\<open>onEditorChange\<close>: every editor but one of the language \<^verbatim>\<open>Log\<close> becomes the active one.\<close>

definition onEditorChange :: "TextEditor option \<Rightarrow> PlaygroundController \<Rightarrow> PlaygroundController" where
  "onEditorChange editor s =
     (case editor of
        None \<Rightarrow> s\<lparr>activeTextEditor := None\<rparr>
      | Some e \<Rightarrow>
          if languageId (document e) \<noteq> ''Log'' then s\<lparr>activeTextEditor := Some e\<rparr> else s)"

subsection \<open>The code lens of a selection\<close>

text \<open>What the host or the language throws inside the selection listener.\<close>

datatype Error = IllegalLine nat | TypeErrorUndefined

text \<open>\<^verbatim>\<open>new vscode.Range(firstLine, 0, firstLine, 0)\<close>.\<close>

definition lineRange :: "nat \<Rightarrow> Range" where
  "lineRange n = \<lparr> start = \<lparr> line = n, character = 0 \<rparr>, end' = \<lparr> line = n, character = 0 \<rparr> \<rparr>"

text \<open>The \<^verbatim>\<open>if\<close> at the end of \<^verbatim>\<open>showCodeLensForSelection\<close>.\<close>

definition refreshPartialExecutionCodeLens ::
  "string \<Rightarrow> string \<Rightarrow> nat \<Rightarrow> PlaygroundController \<Rightarrow> PlaygroundController" where
  "refreshPartialExecutionCodeLens selectedTxt lastSelectedLine firstLine s =
     (if length selectedTxt > 0 \<and> length selectedTxt \<ge> length lastSelectedLine
      then call [PartialExecutionCodeLensRefresh (Some (lineRange firstLine))] s
      else call [PartialExecutionCodeLensRefresh None] s)"

text \<open>
  \<^verbatim>\<open>showCodeLensForSelection(item)\<close>. Without an active editor the line is the empty
  string and the first line is 0. With one, \<^verbatim>\<open>lineAt\<close> may throw, the editor's
  selections are sorted in place, and the first element of an empty array has no
  \<^verbatim>\<open>start\<close>.
\<close>

definition showCodeLensForSelection ::
  "Range \<Rightarrow> PlaygroundController \<Rightarrow> Error + PlaygroundController" where
  "showCodeLensForSelection item s =
     (let selectedTxt = trim (getSelectedText s item) in
      case activeTextEditor s of
        None \<Rightarrow> Inr (refreshPartialExecutionCodeLens selectedTxt [] 0 s)
      | Some ed \<Rightarrow>
          (case lineAt (document ed) (line (end' item)) of
             None \<Rightarrow> Inl (IllegalLine (line (end' item)))
           | Some l \<Rightarrow>
               (let sorted = arraySort compareStartLine (selections ed);
                    s1 = s\<lparr>activeTextEditor := Some (ed\<lparr>selections := sorted\<rparr>)\<rparr>
                in case sorted of
                     [] \<Rightarrow> Inl TypeErrorUndefined
                   | first # _ \<Rightarrow>
                       Inr (refreshPartialExecutionCodeLens selectedTxt (trim l)
                              (line (start first)) s1))))"

text \<open>
  The \<^verbatim>\<open>map\<close> of the selection listener over the sorted selections: the text of every
  item, and the code lens at the last index.
\<close>

fun mapSelections ::
  "Range list \<Rightarrow> PlaygroundController \<Rightarrow> Error + (string list \<times> PlaygroundController)" where
  "mapSelections [] s = Inr ([], s)"
| "mapSelections [item] s =
     (case showCodeLensForSelection item s of
        Inl e \<Rightarrow> Inl e
      | Inr s1 \<Rightarrow> Inr ([getSelectedText s1 item], s1))"
| "mapSelections (item # rest) s =
     (case mapSelections rest s of
        Inl e \<Rightarrow> Inl e
      | Inr (texts, s1) \<Rightarrow> Inr (getSelectedText s item # texts, s1))"

text \<open>
  The listener of \<^verbatim>\<open>onDidChangeTextEditorSelection\<close>. An exception leaves
  \<^verbatim>\<open>_selectedText\<close> unassigned.
\<close>

definition onDidChangeTextEditorSelection ::
  "TextEditorSelectionChangeEvent \<Rightarrow> PlaygroundController \<Rightarrow> Error + PlaygroundController" where
  "onDidChangeTextEditorSelection editor s =
     (if languageId (document (textEditor editor)) = ''mongodb'' then
        (case mapSelections (arraySort compareStartLine (eventSelections editor)) s of
           Inl e \<Rightarrow> Inl e
         | Inr (texts, s1) \<Rightarrow> Inr (s1\<lparr>selectedText := Some (joinNewline texts)\<rparr>))
      else Inr s)"

subsection \<open>Binding the worker to the active connection\<close>

definition disconnectFromServiceProvider :: "PlaygroundController \<Rightarrow> PlaygroundController" where
  "disconnectFromServiceProvider s = call [DisconnectFromServiceProvider] s"

definition connectToServiceProvider :: "PlaygroundController \<Rightarrow> PlaygroundController" where
  "connectToServiceProvider s =
     (let unbound = call [DisconnectFromServiceProvider]
                      (s\<lparr>connectionString := None, connectionOptions := None\<rparr>)
      in case activeConnectionModel s of
           None \<Rightarrow> unbound
         | Some model \<Rightarrow>
             (case driverUrlWithSsh model of
                None \<Rightarrow> unbound
              | Some url \<Rightarrow>
                  if url = [] then unbound
                  else
                    (let options = (case driverOptions model of None \<Rightarrow> [] | Some d \<Rightarrow> d)
                     in call [ConnectToServiceProvider url options (extensionPath s)]
                          (s\<lparr>connectionString := Some url,
                             connectionOptions := Some options\<rparr>))))"

text \<open>
  Modelled from the spec: the emitter of the connection controller (\<^verbatim>\<open>addEventListener\<close>
  and what fires \<^verbatim>\<open>ACTIVE_CONNECTION_CHANGED\<close>) is not among the sources. The spec has
  the notification "fired by a connection-lifecycle collaborator" to "connection-changed
  callbacks", under "single-threaded, cooperative (event-loop) scheduling" with "waiting on
  the worker's connect/disconnect response" as a suspension point. So the two listeners are
  called in the order of their registration, each up to its \<^verbatim>\<open>await\<close>, as an event emitter
  of the language calls them: the first one issues the disconnect request and waits for its
  reply, the second one runs \<^verbatim>\<open>connectToServiceProvider\<close> and waits for the reply to the
  request it issued.
\<close>

definition onActiveConnectionChanged :: "PlaygroundController \<Rightarrow> PlaygroundController" where
  "onActiveConnectionChanged s =
     (let s1 = disconnectFromServiceProvider s;
          s2 = s1\<lparr>awaiting := awaiting s1 @ [DisconnectListener]\<rparr>;
          s3 = connectToServiceProvider s2
      in s3\<lparr>awaiting := awaiting s3 @ [ConnectListener]\<rparr>)"


subsection \<open>The output channel\<close>

definition outputClear :: "PlaygroundController \<Rightarrow> PlaygroundController" where
  "outputClear s = call [OutputClear] (s\<lparr>outputChannel := []\<rparr>)"

definition outputAppendLine :: "string \<Rightarrow> PlaygroundController \<Rightarrow> PlaygroundController" where
  "outputAppendLine l s = call [OutputAppendLine l] (s\<lparr>outputChannel := outputChannel s @ [l]\<rparr>)"

definition outputShow :: "PlaygroundController \<Rightarrow> PlaygroundController" where
  "outputShow s = call [OutputShow] s"

subsection \<open>Running a playground\<close>

text \<open>Updating the \<open>i\<close>-th activation.\<close>

definition updateRun :: "nat \<Rightarrow> (Run \<Rightarrow> Run) \<Rightarrow> PlaygroundController \<Rightarrow> PlaygroundController" where
  "updateRun i f s = s\<lparr>runs := (runs s)[i := f (runs s ! i)]\<rparr>"

definition newRun :: Run where
  "newRun = \<lparr> confirming = False, executing = False, modal = Pending, outcome = Pending \<rparr>"

text \<open>\<^verbatim>\<open>resolve(b)\<close> of the promise \<^verbatim>\<open>evaluatePlayground\<close> returned.\<close>

definition resolveOutcome :: "nat \<Rightarrow> bool \<Rightarrow> PlaygroundController \<Rightarrow> PlaygroundController" where
  "resolveOutcome i b s =
     updateRun i (\<lambda>r. case outcome r of Pending \<Rightarrow> r\<lparr>outcome := Resolved b\<rparr> | _ \<Rightarrow> r) s"

text \<open>
  \<^verbatim>\<open>evaluatePlayground\<close> after \<^verbatim>\<open>await this.evaluateWithCancelModal()\<close>: the result goes
  to the output channel.
\<close>

definition evaluatePlaygroundResumed ::
  "nat \<Rightarrow> ExecuteAllResult \<Rightarrow> PlaygroundController \<Rightarrow> PlaygroundController" where
  "evaluatePlaygroundResumed i result s =
     (case result of
        None \<Rightarrow> resolveOutcome i False (outputShow (outputClear s))
      | Some items \<Rightarrow>
          resolveOutcome i True
            (outputShow (fold (\<lambda>item. outputAppendLine (content item)) items (outputClear s))))"

text \<open>
  \<^verbatim>\<open>resolve(result)\<close> of the promise \<^verbatim>\<open>evaluateWithCancelModal\<close> returned: the first
  call settles the promise and \<^verbatim>\<open>evaluatePlayground\<close> resumes; a later call does nothing.
\<close>

definition resolveModal ::
  "nat \<Rightarrow> ExecuteAllResult \<Rightarrow> PlaygroundController \<Rightarrow> PlaygroundController" where
  "resolveModal i result s =
     (case modal (runs s ! i) of
        Pending \<Rightarrow> evaluatePlaygroundResumed i result (updateRun i (\<lambda>r. r\<lparr>modal := Resolved result\<rparr>) s)
      | _ \<Rightarrow> s)"

text \<open>
  \<^verbatim>\<open>evaluateWithCancelModal\<close> up to the \<^verbatim>\<open>await\<close> of \<^verbatim>\<open>evaluate\<close>: without a
  connection string the promise is rejected, and \<^verbatim>\<open>evaluatePlayground\<close>, which awaits it
  inside the executor of its own promise, never resolves. Otherwise the progress
  notification opens and \<^verbatim>\<open>evaluate\<close> sends the stored code to the worker.
\<close>

definition evaluateWithCancelModal :: "nat \<Rightarrow> PlaygroundController \<Rightarrow> PlaygroundController" where
  "evaluateWithCancelModal i s =
     (if \<not> truthy (connectionString s) then
        updateRun i
          (\<lambda>r. r\<lparr>modal := Rejected ''Please connect to a database before running a playground.''\<rparr>) s
      else
        call [WithProgress ''Running MongoDB playground...'', ExecuteAll (codeToEvaluate s)]
          (updateRun i (\<lambda>r. r\<lparr>executing := True\<rparr>) s))"

definition confirmationMessage :: "string \<Rightarrow> string" where
  "confirmationMessage name =
     ''Are you sure you want to run this playground against '' @ name @
     ''? This confirmation can be disabled in the extension settings.''"

text \<open>\<^verbatim>\<open>evaluatePlayground\<close> up to its first \<^verbatim>\<open>await\<close>; the new activation is the last.\<close>

definition evaluatePlayground :: "PlaygroundController \<Rightarrow> PlaygroundController" where
  "evaluatePlayground s =
     (let i = length (runs s);
          s0 = s\<lparr>runs := runs s @ [newRun]\<rparr>
      in if \<not> truthy (connectionString s) then
           resolveOutcome i False
             (call [ShowErrorMessage ''Please connect to a database before running a playground.''] s0)
         else if confirmRunAll s = CfgBool True then
           call [ShowModalConfirmation (confirmationMessage (activeConnectionName s))]
             (updateRun i (\<lambda>r. r\<lparr>confirming := True\<rparr>) s0)
         else evaluateWithCancelModal i s0)"

text \<open>
  The answer to the confirmation prompt of the \<open>i\<close>-th activation: the button's label, or
  nothing when the prompt is dismissed.
\<close>

definition confirmationAnswered ::
  "nat \<Rightarrow> string option \<Rightarrow> PlaygroundController \<Rightarrow> PlaygroundController" where
  "confirmationAnswered i confirmRunAllAnswer s =
     (if i < length (runs s) \<and> confirming (runs s ! i) then
        (let s1 = updateRun i (\<lambda>r. r\<lparr>confirming := False\<rparr>) s
         in if confirmRunAllAnswer \<noteq> Some ''Yes'' then resolveOutcome i False s1
            else evaluateWithCancelModal i s1)
      else s)"

text \<open>
  The worker's reply to \<^verbatim>\<open>executeAll\<close> of the \<open>i\<close>-th activation: \<^verbatim>\<open>evaluate\<close> resumes,
  tracks the execution with the flag \<^verbatim>\<open>_isPartialRun\<close> as it is now, and
  \<^verbatim>\<open>evaluateWithCancelModal\<close> resolves its promise with the result.
\<close>

definition executeAllReturned ::
  "nat \<Rightarrow> ExecuteAllResult \<Rightarrow> PlaygroundController \<Rightarrow> PlaygroundController" where
  "executeAllReturned i result s =
     (if i < length (runs s) \<and> executing (runs s ! i) then
        resolveModal i result
          (call [TrackPlaygroundCodeExecuted result (isPartialRun s) (result = None)]
             (updateRun i (\<lambda>r. r\<lparr>executing := False\<rparr>) s))
      else s)"

text \<open>
  The request \<^verbatim>\<open>executeAll\<close> of the \<open>i\<close>-th activation fails: \<^verbatim>\<open>withProgress\<close> rejects
  and the promise is resolved with \<^verbatim>\<open>undefined\<close>.
\<close>

definition executeAllRejected :: "nat \<Rightarrow> PlaygroundController \<Rightarrow> PlaygroundController" where
  "executeAllRejected i s =
     (if i < length (runs s) \<and> executing (runs s ! i) then
        resolveModal i None (updateRun i (\<lambda>r. r\<lparr>executing := False\<rparr>) s)
      else s)"

text \<open>
  The user cancels the progress notification of the \<open>i\<close>-th activation, which is open
  while the request is outstanding; the token fires once.
\<close>

definition cancellationRequested :: "nat \<Rightarrow> PlaygroundController \<Rightarrow> PlaygroundController" where
  "cancellationRequested i s =
     (if i < length (runs s) \<and> executing (runs s ! i) \<and> modal (runs s ! i) = Pending then
        resolveModal i None (outputShow (outputClear (call [CancelAll] s)))
      else s)"

subsection \<open>The commands\<close>

definition isPlayground :: "PlaygroundController \<Rightarrow> bool" where
  "isPlayground s =
     (case activeTextEditor s of None \<Rightarrow> False
      | Some ed \<Rightarrow> languageId (document ed) = ''mongodb'')"

text \<open>\<^verbatim>\<open>return Promise.resolve(b)\<close>: an activation that is settled at once.\<close>

definition promiseResolve :: "bool \<Rightarrow> PlaygroundController \<Rightarrow> PlaygroundController" where
  "promiseResolve b s = s\<lparr>runs := runs s @ [newRun\<lparr>outcome := Resolved b\<rparr>]\<rparr>"

definition openPlaygroundFileMessage :: string where
  "openPlaygroundFileMessage =
     ''Please open a '' @ [CHR 0x27] @ ''.mongodb'' @ [CHR 0x27] @
     '' playground file before running it.''"

text \<open>
  The test both selection commands make on the active editor's selections (an array of
  selections by its type): one selection whose text is empty.
\<close>

definition nothingSelected :: "PlaygroundController \<Rightarrow> bool" where
  "nothingSelected s =
     (case activeTextEditor s of None \<Rightarrow> False
      | Some ed \<Rightarrow>
          length (selections ed) = 1 \<and> getSelectedText s (selections ed ! 0) = [])"

text \<open>
  The branch \<^verbatim>\<open>else if (this._selectedText)\<close> of both selection commands: a stored text
  that is defined and not empty becomes the code to evaluate, and the run is partial.
\<close>

definition useSelectedText :: "PlaygroundController \<Rightarrow> PlaygroundController" where
  "useSelectedText s =
     (case selectedText s of
        None \<Rightarrow> s
      | Some t \<Rightarrow> if t = [] then s else s\<lparr>isPartialRun := True, codeToEvaluate := t\<rparr>)"

definition runSelectedPlaygroundBlocks :: "PlaygroundController \<Rightarrow> PlaygroundController" where
  "runSelectedPlaygroundBlocks s =
     (if \<not> isPlayground s then
        promiseResolve False (call [ShowErrorMessage openPlaygroundFileMessage] s)
      else if nothingSelected s then
        promiseResolve True
          (call [ShowInformationMessage ''Please select one or more lines in the playground.''] s)
      else evaluatePlayground (useSelectedText s))"

definition runAllPlaygroundBlocks :: "PlaygroundController \<Rightarrow> PlaygroundController" where
  "runAllPlaygroundBlocks s =
     (if \<not> isPlayground s then
        promiseResolve False (call [ShowErrorMessage openPlaygroundFileMessage] s)
      else evaluatePlayground (s\<lparr>isPartialRun := False, codeToEvaluate := getAllText s\<rparr>))"

definition runAllOrSelectedPlaygroundBlocks :: "PlaygroundController \<Rightarrow> PlaygroundController" where
  "runAllOrSelectedPlaygroundBlocks s =
     (if \<not> isPlayground s then
        promiseResolve False (call [ShowErrorMessage openPlaygroundFileMessage] s)
      else if nothingSelected s then
        evaluatePlayground (s\<lparr>isPartialRun := False, codeToEvaluate := getAllText s\<rparr>)
      else evaluatePlayground (useSelectedText s))"

subsection \<open>Reading the log of calls\<close>

text \<open>The requests to execute code among the calls, and the calls on the output channel.\<close>

fun isExecuteAll :: "Call \<Rightarrow> bool" where
  "isExecuteAll (ExecuteAll code) = True"
| "isExecuteAll c = False"


text \<open>The calls a turn added to the log of the state it started in.\<close>

definition added :: "PlaygroundController \<Rightarrow> PlaygroundController \<Rightarrow> Call list" where
  "added s s' = drop (length (calls s)) (calls s')"

subsection \<open>The run states of the specification\<close>

text \<open>
  The controller has no field for a run state. An activation is \<open>Running\<close> while its
  request is outstanding at the worker and both of its promises are unsettled, and it
  awaits confirmation while its prompt is open; the controller is idle when no activation
  is in either state.
\<close>

definition running :: "Run \<Rightarrow> bool" where
  "running r = (\<not> confirming r \<and> executing r \<and> modal r = Pending \<and> outcome r = Pending)"



subsection \<open>A playground session\<close>

text \<open>
  A playground of six lines, two selections made on lines 5 and 2 in this order, a
  selection of the first four characters of the statement on line 5, and a connection to
  bind to.
\<close>

definition playgroundLines :: "string list" where
  "playgroundLines = [''db.a.find()'', [], ''db.b.find()'', [], [], ''  db.e.find()  '']"

definition selectionLine2 :: Range where
  "selectionLine2 = \<lparr> start = \<lparr> line = 2, character = 0 \<rparr>, end' = \<lparr> line = 2, character = 11 \<rparr> \<rparr>"

definition selectionLine5 :: Range where
  "selectionLine5 = \<lparr> start = \<lparr> line = 5, character = 2 \<rparr>, end' = \<lparr> line = 5, character = 13 \<rparr> \<rparr>"

definition selectionInLine5 :: Range where
  "selectionInLine5 = \<lparr> start = \<lparr> line = 5, character = 2 \<rparr>, end' = \<lparr> line = 5, character = 6 \<rparr> \<rparr>"

definition playgroundDocument :: TextDocument where
  "playgroundDocument =
     \<lparr> languageId = ''mongodb'',
       getText = (\<lambda>r. case r of
                    None \<Rightarrow> joinNewline playgroundLines
                  | Some x \<Rightarrow>
                      if x = selectionLine2 then ''db.b.find()''
                      else if x = selectionLine5 then ''db.e.find()''
                      else if x = selectionInLine5 then ''db.e'' else []),
       lineAt = (\<lambda>n. if n < length playgroundLines then Some (playgroundLines ! n) else None) \<rparr>"

definition playgroundEditor :: TextEditor where
  "playgroundEditor = \<lparr> document = playgroundDocument, selections = [selectionLine5, selectionLine2] \<rparr>"

definition selectionEvent :: TextEditorSelectionChangeEvent where
  "selectionEvent =
     \<lparr> textEditor = playgroundEditor, eventSelections = [selectionLine5, selectionLine2] \<rparr>"

definition fresh :: PlaygroundController where
  "fresh = constructed ''/extension'' (Some playgroundEditor)"

definition selected :: PlaygroundController where
  "selected =
     fresh\<lparr> activeTextEditor :=
               Some (playgroundEditor\<lparr>selections := [selectionLine2, selectionLine5]\<rparr>),
            selectedText := Some (''db.b.find()'' @ [CHR 0x0A] @ ''db.e.find()''),
            calls := [PartialExecutionCodeLensRefresh (Some (lineRange 2))] \<rparr>"

definition localConnection :: ConnectionAttributes where
  "localConnection =
     \<lparr> driverUrlWithSsh = Some ''mongodb://localhost:27017'', driverOptions = None \<rparr>"

text \<open>The connection controller activates the connection and fires the event.\<close>

definition bound :: PlaygroundController where
  "bound =
     onActiveConnectionChanged
       (fresh\<lparr>activeConnectionModel := Some localConnection,
              activeConnectionName := ''localhost:27017''\<rparr>)"

text \<open>With confirmation required, a run opens the prompt.\<close>

definition prompted :: PlaygroundController where
  "prompted = evaluatePlayground (bound\<lparr>confirmRunAll := CfgBool True\<rparr>)"

text \<open>
  Without it, running all blocks sends the document to the worker; the command is given
  again while the first request is outstanding, or that request is cancelled.
\<close>

definition dispatched :: PlaygroundController where
  "dispatched = runAllPlaygroundBlocks bound"


definition cancelled :: PlaygroundController where
  "cancelled = cancellationRequested 0 dispatched"

text \<open>Or the worker replies with two output records.\<close>

definition twoRecords :: ExecuteAllResult where
  "twoRecords = Some [\<lparr> content = ''1'' \<rparr>, \<lparr> content = ''2'' \<rparr>]"

definition replied :: PlaygroundController where
  "replied = executeAllReturned 0 twoRecords dispatched"



section \<open>Properties\<close>

subsection \<open>Sorting selections and reading their text\<close>

lemma insertBy_compareStartLine:
  "insertBy compareStartLine x ys = insort_key startLine x ys"
  by (induction ys) (auto simp: compareStartLine_def startLine_def)

lemma arraySort_compareStartLine:
  "arraySort compareStartLine xs = sort_key startLine xs"
  by (induction xs) (simp_all add: arraySort_def insertBy_compareStartLine)

lemma calls_call [simp]: "calls (call cs s) = calls s @ cs"
  by (simp add: call_def)

lemma activeTextEditor_call [simp]: "activeTextEditor (call cs s) = activeTextEditor s"
  by (simp add: call_def)

lemma activeTextEditor_refresh [simp]:
  "activeTextEditor (refreshPartialExecutionCodeLens a b n s) = activeTextEditor s"
  by (simp add: refreshPartialExecutionCodeLens_def)

lemma getSelectedText_cong:
  "map_option document (activeTextEditor s1) = map_option document (activeTextEditor s) \<Longrightarrow>
   getSelectedText s1 = getSelectedText s"
  by (auto simp: getSelectedText_def fun_eq_iff split: option.splits)


lemma showCodeLensForSelection_document:
  assumes "showCodeLensForSelection item s = Inr s1"
  shows "map_option document (activeTextEditor s1) = map_option document (activeTextEditor s)"
proof (cases "activeTextEditor s")
  case None
  with assms show ?thesis
    by (simp add: showCodeLensForSelection_def Let_def) (erule subst, simp)
next
  case (Some ed)
  show ?thesis
  proof (cases "lineAt (document ed) (line (end' item))")
    case None
    with Some assms show ?thesis by (simp add: showCodeLensForSelection_def Let_def)
  next
    case l: (Some l)
    show ?thesis
    proof (cases "arraySort compareStartLine (selections ed)")
      case Nil
      with Some l assms show ?thesis by (simp add: showCodeLensForSelection_def Let_def)
    next
      case (Cons first rest)
      with Some l assms have "s1 = refreshPartialExecutionCodeLens (trim (getSelectedText s item)) (trim l)
              (line (start first)) (s\<lparr>activeTextEditor := Some (ed\<lparr>selections := first # rest\<rparr>)\<rparr>)"
        by (simp add: showCodeLensForSelection_def Let_def)
      then show ?thesis using Some by simp
    qed
  qed
qed



lemma mapSelections_texts:
  "mapSelections items s = Inr (texts, s1) \<Longrightarrow>
   texts = map (getSelectedText s) items \<and>
   map_option document (activeTextEditor s1) = map_option document (activeTextEditor s)"
proof (induction items s arbitrary: texts rule: mapSelections.induct)
  case (1 s)
  then show ?case by simp
next
  case (2 item s)
  show ?case
  proof (cases "showCodeLensForSelection item s")
    case (Inl e)
    with "2.prems" show ?thesis by (simp only: mapSelections.simps sum.case sum.distinct)
  next
    case (Inr s')
    with "2.prems" have e: "Inr ([getSelectedText s' item], s') = (Inr (texts, s1) :: Error + _)"
      by (simp only: mapSelections.simps sum.case)
    from e have b: "[getSelectedText s' item] = texts" by blast
    from e have c: "s' = s1" by blast
    have d: "map_option document (activeTextEditor s') = map_option document (activeTextEditor s)"
      by (rule showCodeLensForSelection_document [OF Inr])
    have "getSelectedText s' = getSelectedText s"
      by (rule getSelectedText_cong [OF d])
    with b [symmetric] c d show ?thesis by (simp only: list.map)
  qed
next
  case (3 item v va s)
  show ?case
  proof (cases "mapSelections (v # va) s")
    case (Inl e)
    with "3.prems" show ?thesis by (simp only: mapSelections.simps sum.case sum.distinct)
  next
    case (Inr p)
    obtain ts s2 where p: "p = (ts, s2)" by (cases p)
    with Inr "3.prems" have e: "Inr (getSelectedText s item # ts, s2) = (Inr (texts, s1) :: Error + _)"
      by (simp only: mapSelections.simps sum.case prod.case)
    from e have b: "getSelectedText s item # ts = texts" by blast
    from e have c: "s2 = s1" by blast
    from Inr p c have a: "mapSelections (v # va) s = Inr (ts, s1)" by (simp only:)
    from "3.IH" [OF a] b [symmetric] show ?thesis by (simp only: list.map)
  qed
qed



lemma sort_key_startLine_permuted:
  assumes "mset ys = mset xs" and "distinct (map startLine xs)"
  shows "sort_key startLine ys = sort_key startLine xs"
proof -
  have sx: "set ys = set xs" using assms(1) by (rule mset_eq_setD)
  have inj: "inj_on startLine (set xs)" and dx: "distinct xs"
    using assms(2) by (simp_all add: distinct_map)
  have dy: "distinct ys" using mset_eq_imp_distinct_iff [OF assms(1)] dx by (simp only:)
  have "map startLine (sort_key startLine ys) = map startLine (sort_key startLine xs)"
  proof (rule sorted_distinct_set_unique)
    show "distinct (map startLine (sort_key startLine ys))"
      using dy inj sx by (simp add: distinct_map)
    show "distinct (map startLine (sort_key startLine xs))"
      using dx inj by (simp add: distinct_map)
    show "set (map startLine (sort_key startLine ys)) = set (map startLine (sort_key startLine xs))"
      using sx by simp
  qed simp_all
  moreover have "inj_on startLine (set (sort_key startLine ys) \<union> set (sort_key startLine xs))"
    using inj sx by simp
  ultimately show ?thesis by (simp add: inj_on_map_eq_map)
qed




lemma mapSelections_last:
  "items \<noteq> [] \<Longrightarrow>
   mapSelections items s =
     (case showCodeLensForSelection (last items) s of
        Inl e \<Rightarrow> Inl e
      | Inr s1 \<Rightarrow> Inr (map (getSelectedText s) items, s1))"
proof (induction items s rule: mapSelections.induct)
  case (1 s)
  then show ?case by simp
next
  case (2 item s)
  show ?case
  proof (cases "showCodeLensForSelection item s")
    case (Inl e)
    then show ?thesis by simp
  next
    case (Inr s1)
    have "getSelectedText s1 = getSelectedText s"
      by (rule getSelectedText_cong) (rule showCodeLensForSelection_document [OF Inr])
    with Inr show ?thesis by simp
  qed
next
  case (3 item v va s)
  have ih: "mapSelections (v # va) s =
     (case showCodeLensForSelection (last (v # va)) s of
        Inl e \<Rightarrow> Inl e
      | Inr s1 \<Rightarrow> Inr (map (getSelectedText s) (v # va), s1))"
    by (rule "3.IH") simp
  have l: "last (item # v # va) = last (v # va)" by simp
  show ?case
    unfolding l mapSelections.simps(3) ih
    by (cases "showCodeLensForSelection (last (v # va)) s") simp_all
qed

lemma onDidChangeTextEditorSelection_eq:
  assumes "languageId (document (textEditor editor)) = ''mongodb''"
  shows "onDidChangeTextEditorSelection editor s =
     (case (if eventSelections editor = [] then Inr s
            else showCodeLensForSelection (last (sort_key startLine (eventSelections editor))) s) of
        Inl e \<Rightarrow> Inl e
      | Inr s1 \<Rightarrow>
          Inr (s1\<lparr>selectedText :=
                 Some (joinNewline (map (getSelectedText s)
                   (sort_key startLine (eventSelections editor))))\<rparr>))"
proof (cases "eventSelections editor = []")
  case True
  with assms show ?thesis
    by (simp add: onDidChangeTextEditorSelection_def arraySort_compareStartLine)
next
  case False
  then have ne: "sort_key startLine (eventSelections editor) \<noteq> []"
    by (metis length_sort length_0_conv)
  show ?thesis
    unfolding onDidChangeTextEditorSelection_def arraySort_compareStartLine
      mapSelections_last [OF ne]
    using assms False
    by (cases "showCodeLensForSelection (last (sort_key startLine (eventSelections editor))) s")
       simp_all
qed

text \<open>
  Claim C5. When a selection change in a playground is handled, the stored selected text
  is the texts of the event's ranges joined by a newline, the ranges taken in ascending
  order of their start lines: in the order of a permutation of the ranges that is sorted
  by start line. When the start lines differ from each other, an event with the same
  ranges in any other order stores the same text.
\<close>

theorem selected_text_joined_by_start_line:
  assumes "languageId (document (textEditor editor)) = ''mongodb''"
    and "onDidChangeTextEditorSelection editor s = Inr s'"
  shows "(\<exists>ranges. mset ranges = mset (eventSelections editor)
            \<and> sorted (map startLine ranges)
            \<and> selectedText s' = Some (joinNewline (map (getSelectedText s) ranges)))
         \<and> (\<forall>editor'. textEditor editor' = textEditor editor
               \<and> mset (eventSelections editor') = mset (eventSelections editor)
               \<and> distinct (map startLine (eventSelections editor))
               \<longrightarrow> onDidChangeTextEditorSelection editor' s = Inr s')"
proof -
  let ?sorted = "sort_key startLine (eventSelections editor)"
  let ?lens = "if eventSelections editor = [] then Inr s
               else showCodeLensForSelection (last ?sorted) s"
  have u: "onDidChangeTextEditorSelection editor s =
        (case ?lens of
           Inl e \<Rightarrow> Inl e
         | Inr s1 \<Rightarrow> Inr (s1\<lparr>selectedText := Some (joinNewline (map (getSelectedText s) ?sorted))\<rparr>))"
    by (rule onDidChangeTextEditorSelection_eq [OF assms(1)])
  have joined: "selectedText s' = Some (joinNewline (map (getSelectedText s) ?sorted))"
  proof (cases ?lens)
    case (Inl e)
    with u assms(2) show ?thesis by (simp only: sum.case sum.distinct)
  next
    case (Inr s1)
    with u assms(2)
    have "Inr (s1\<lparr>selectedText := Some (joinNewline (map (getSelectedText s) ?sorted))\<rparr>) =
            (Inr s' :: Error + _)"
      by (simp only: sum.case)
    then have "s1\<lparr>selectedText := Some (joinNewline (map (getSelectedText s) ?sorted))\<rparr> = s'"
      by (rule sum.inject(2) [THEN iffD1])
    then show ?thesis by (rule subst) simp
  qed
  have ordered: "\<exists>ranges. mset ranges = mset (eventSelections editor)
            \<and> sorted (map startLine ranges)
            \<and> selectedText s' = Some (joinNewline (map (getSelectedText s) ranges))"
  proof (intro exI conjI)
    show "mset ?sorted = mset (eventSelections editor)" by simp
    show "sorted (map startLine ?sorted)" by simp
    show "selectedText s' = Some (joinNewline (map (getSelectedText s) ?sorted))" by (rule joined)
  qed
  have perm: "onDidChangeTextEditorSelection editor' s = Inr s'"
    if e: "textEditor editor' = textEditor editor"
      and m: "mset (eventSelections editor') = mset (eventSelections editor)"
      and d: "distinct (map startLine (eventSelections editor))" for editor'
  proof -
    have l: "languageId (document (textEditor editor')) = ''mongodb''"
      using assms(1) e by (simp only:)
    have srt: "sort_key startLine (eventSelections editor') = ?sorted"
      by (rule sort_key_startLine_permuted [OF m d])
    have emp: "(eventSelections editor' = []) = (eventSelections editor = [])"
      using m by (metis mset_zero_iff)
    have "onDidChangeTextEditorSelection editor' s = onDidChangeTextEditorSelection editor s"
      unfolding onDidChangeTextEditorSelection_eq [OF l] u srt emp ..
    with assms(2) show ?thesis by (simp only:)
  qed
  from ordered perm show ?thesis by blast
qed

theorem selected_text_joined_by_start_line_witness:
  "languageId (document (textEditor selectionEvent)) = ''mongodb''
   \<and> onDidChangeTextEditorSelection selectionEvent fresh = Inr selected
   \<and> (\<exists>ranges. mset ranges = mset (eventSelections selectionEvent)
         \<and> sorted (map startLine ranges)
         \<and> selectedText selected = Some (joinNewline (map (getSelectedText fresh) ranges)))
   \<and> eventSelections selectionEvent = [selectionLine5, selectionLine2]
   \<and> selectedText selected = Some (''db.b.find()'' @ [CHR 0x0A] @ ''db.e.find()'')"
proof -
  have h1: "languageId (document (textEditor selectionEvent)) = ''mongodb''"
    by (simp add: selectionEvent_def playgroundEditor_def playgroundDocument_def)
  have h2: "onDidChangeTextEditorSelection selectionEvent fresh = Inr selected"
    by (simp add: onDidChangeTextEditorSelection_eq selectionEvent_def playgroundEditor_def
        playgroundDocument_def selectionLine2_def selectionLine5_def startLine_def fresh_def
        constructed_def selected_def showCodeLensForSelection_def getSelectedText_def
        arraySort_compareStartLine playgroundLines_def refreshPartialExecutionCodeLens_def
        call_def trim_def isWhiteSpace_def)
  have h3: "eventSelections selectionEvent = [selectionLine5, selectionLine2]"
    by (simp add: selectionEvent_def)
  have h4: "selectedText selected = Some (''db.b.find()'' @ [CHR 0x0A] @ ''db.e.find()'')"
    by (simp add: selected_def)
  from selected_text_joined_by_start_line [OF h1 h2] have
    "\<exists>ranges. mset ranges = mset (eventSelections selectionEvent)
         \<and> sorted (map startLine ranges)
         \<and> selectedText selected = Some (joinNewline (map (getSelectedText fresh) ranges))"
    by (rule conjunct1)
  with h1 h2 h3 h4 show ?thesis by (simp only: simp_thms)
qed

subsection \<open>The code lens of a partial run\<close>




lemma code_lens_cleared_within_line:
  "showCodeLensForSelection selectionInLine5 fresh =
     Inr (fresh\<lparr>activeTextEditor :=
                 Some (playgroundEditor\<lparr>selections := [selectionLine2, selectionLine5]\<rparr>),
               calls := [PartialExecutionCodeLensRefresh None]\<rparr>)"
  by (simp add: showCodeLensForSelection_def arraySort_compareStartLine
      refreshPartialExecutionCodeLens_def call_def playgroundEditor_def playgroundDocument_def
      selectionLine2_def selectionLine5_def selectionInLine5_def startLine_def fresh_def
      constructed_def getSelectedText_def playgroundLines_def trim_def isWhiteSpace_def)

subsection \<open>Starting a run\<close>

lemma added_call [simp]: "calls s' = calls s @ cs \<Longrightarrow> added s s' = cs"
  by (simp add: added_def)

lemma evaluatePlayground_unbound:
  assumes "\<not> truthy (connectionString s)"
  shows "evaluatePlayground s =
           s\<lparr>calls := calls s @
                 [ShowErrorMessage ''Please connect to a database before running a playground.''],
             runs := runs s @ [newRun\<lparr>outcome := Resolved False\<rparr>]\<rparr>"
  using assms
  by (simp add: evaluatePlayground_def Let_def resolveOutcome_def updateRun_def call_def newRun_def)

lemma evaluatePlayground_confirm:
  assumes "truthy (connectionString s)" and "confirmRunAll s = CfgBool True"
  shows "evaluatePlayground s =
           s\<lparr>calls := calls s @
                 [ShowModalConfirmation (confirmationMessage (activeConnectionName s))],
             runs := runs s @ [newRun\<lparr>confirming := True\<rparr>]\<rparr>"
  using assms
  by (simp add: evaluatePlayground_def Let_def updateRun_def call_def newRun_def)

lemma evaluatePlayground_dispatch:
  assumes "truthy (connectionString s)" and "confirmRunAll s \<noteq> CfgBool True"
  shows "evaluatePlayground s =
           s\<lparr>calls := calls s @
                 [WithProgress ''Running MongoDB playground...'', ExecuteAll (codeToEvaluate s)],
             runs := runs s @ [newRun\<lparr>executing := True\<rparr>]\<rparr>"
  using assms
  by (simp add: evaluatePlayground_def evaluateWithCancelModal_def Let_def updateRun_def call_def
      newRun_def)


lemma useSelectedText_fields [simp]:
  "connectionString (useSelectedText s) = connectionString s"
  "calls (useSelectedText s) = calls s"
  "outputChannel (useSelectedText s) = outputChannel s"
  by (simp_all add: useSelectedText_def split: option.split)

lemma unbound_quiet:
  assumes "\<not> truthy (connectionString s')" and "calls s' = calls s"
    and "outputChannel s' = outputChannel s"
  shows "filter isExecuteAll (added s (evaluatePlayground s')) = [] \<and>
         outputChannel (evaluatePlayground s') = outputChannel s"
  using assms by (simp add: evaluatePlayground_unbound [OF assms(1)] added_def)

lemma promiseResolve_quiet:
  assumes "\<not> isExecuteAll m"
  shows "filter isExecuteAll (added s (promiseResolve b (call [m] s))) = [] \<and>
         outputChannel (promiseResolve b (call [m] s)) = outputChannel s"
  using assms by (simp add: promiseResolve_def call_def added_def)

text \<open>
  Claim C2. A run started while no connection string is stored shows the error message
  "Please connect to a database before running a playground." and resolves to
  \<^verbatim>\<open>false\<close>; it sends no \<^verbatim>\<open>executeAll\<close> to the worker and leaves the output channel as it
  is. \<^verbatim>\<open>evaluateWithCancelModal\<close> rejects its promise and changes nothing else. None of
  the three run commands sends \<^verbatim>\<open>executeAll\<close> or touches the output channel then.
\<close>

theorem run_without_connection:
  assumes "\<not> truthy (connectionString s)"
  shows "evaluatePlayground s =
           s\<lparr>calls := calls s @
                 [ShowErrorMessage ''Please connect to a database before running a playground.''],
             runs := runs s @ [newRun\<lparr>outcome := Resolved False\<rparr>]\<rparr>
       \<and> filter isExecuteAll (added s (evaluatePlayground s)) = []
       \<and> outputChannel (evaluatePlayground s) = outputChannel s
       \<and> evaluateWithCancelModal i s =
           s\<lparr>runs := (runs s)[i := (runs s ! i)
                 \<lparr>modal := Rejected ''Please connect to a database before running a playground.''\<rparr>]\<rparr>
       \<and> filter isExecuteAll (added s (runAllPlaygroundBlocks s)) = []
       \<and> outputChannel (runAllPlaygroundBlocks s) = outputChannel s
       \<and> filter isExecuteAll (added s (runSelectedPlaygroundBlocks s)) = []
       \<and> outputChannel (runSelectedPlaygroundBlocks s) = outputChannel s
       \<and> filter isExecuteAll (added s (runAllOrSelectedPlaygroundBlocks s)) = []
       \<and> outputChannel (runAllOrSelectedPlaygroundBlocks s) = outputChannel s"
proof -
  note e = evaluatePlayground_unbound [OF assms]
  have a: "filter isExecuteAll (added s (evaluatePlayground s)) = [] \<and>
           outputChannel (evaluatePlayground s) = outputChannel s"
    by (rule unbound_quiet [OF assms]) simp_all
  have m: "evaluateWithCancelModal i s =
           s\<lparr>runs := (runs s)[i := (runs s ! i)
                 \<lparr>modal := Rejected ''Please connect to a database before running a playground.''\<rparr>]\<rparr>"
    using assms by (simp add: evaluateWithCancelModal_def updateRun_def)
  have q: "filter isExecuteAll (added s (evaluatePlayground s')) = [] \<and>
           outputChannel (evaluatePlayground s') = outputChannel s"
    if "connectionString s' = connectionString s" and "calls s' = calls s"
      and "outputChannel s' = outputChannel s" for s'
    using unbound_quiet [of s' s] assms that by simp
  have all: "filter isExecuteAll (added s (runAllPlaygroundBlocks s)) = [] \<and>
             outputChannel (runAllPlaygroundBlocks s) = outputChannel s"
    unfolding runAllPlaygroundBlocks_def
    by (simp add: q promiseResolve_quiet)
  have sel: "filter isExecuteAll (added s (runSelectedPlaygroundBlocks s)) = [] \<and>
             outputChannel (runSelectedPlaygroundBlocks s) = outputChannel s"
    unfolding runSelectedPlaygroundBlocks_def
    by (simp add: q promiseResolve_quiet)
  have either: "filter isExecuteAll (added s (runAllOrSelectedPlaygroundBlocks s)) = [] \<and>
             outputChannel (runAllOrSelectedPlaygroundBlocks s) = outputChannel s"
    unfolding runAllOrSelectedPlaygroundBlocks_def
    by (simp add: q promiseResolve_quiet)
  from e a m all sel either show ?thesis by blast
qed


theorem run_without_connection_witness:
  "\<not> truthy (connectionString fresh)
   \<and> calls (evaluatePlayground fresh) =
       [ShowErrorMessage ''Please connect to a database before running a playground.'']
   \<and> map outcome (runs (evaluatePlayground fresh)) = [Resolved False]
   \<and> outputChannel (evaluatePlayground fresh) = []
   \<and> calls (runAllPlaygroundBlocks fresh) =
       [ShowErrorMessage ''Please connect to a database before running a playground.'']"
  using run_without_connection [of fresh 0]
  by (simp add: fresh_def constructed_def truthy_def newRun_def runAllPlaygroundBlocks_def
      isPlayground_def playgroundEditor_def playgroundDocument_def evaluatePlayground_def
      resolveOutcome_def updateRun_def call_def)

text \<open>
  Claim C6. When the user does not answer "Yes" to the confirmation prompt of an
  activation, the activation resolves to \<^verbatim>\<open>false\<close> and nothing else changes: no call is
  made on the worker, the telemetry or the output channel. \<^verbatim>\<open>evaluatePlayground\<close> opens
  the prompt exactly when a connection string is stored and the setting
  \<^verbatim>\<open>confirmRunAll\<close> is the boolean \<^verbatim>\<open>true\<close>, and the prompt names the active connection.
\<close>

theorem declined_confirmation_aborts:
  assumes "i < length (runs s)" and "confirming (runs s ! i)"
    and "outcome (runs s ! i) = Pending" and "answer \<noteq> Some ''Yes''"
  shows "confirmationAnswered i answer s =
           s\<lparr>runs := (runs s)[i := (runs s ! i)\<lparr>confirming := False, outcome := Resolved False\<rparr>]\<rparr>
       \<and> added s (confirmationAnswered i answer s) = []
       \<and> outputChannel (confirmationAnswered i answer s) = outputChannel s
       \<and> ((\<exists>m. added t (evaluatePlayground t) = [ShowModalConfirmation m]) =
            (truthy (connectionString t) \<and> confirmRunAll t = CfgBool True))
       \<and> (truthy (connectionString t) \<and> confirmRunAll t = CfgBool True \<longrightarrow>
            evaluatePlayground t =
              t\<lparr>calls := calls t @
                    [ShowModalConfirmation (confirmationMessage (activeConnectionName t))],
                runs := runs t @ [newRun\<lparr>confirming := True\<rparr>]\<rparr>)"
proof -
  have d: "confirmationAnswered i answer s =
           s\<lparr>runs := (runs s)[i := (runs s ! i)\<lparr>confirming := False, outcome := Resolved False\<rparr>]\<rparr>"
    using assms by (simp add: confirmationAnswered_def resolveOutcome_def updateRun_def Let_def)
  have q: "added s (confirmationAnswered i answer s) = [] \<and>
           outputChannel (confirmationAnswered i answer s) = outputChannel s"
    unfolding d by (simp add: added_def)
  have p: "(\<exists>m. added t (evaluatePlayground t) = [ShowModalConfirmation m]) =
            (truthy (connectionString t) \<and> confirmRunAll t = CfgBool True)"
  proof (cases "truthy (connectionString t)")
    case False
    then show ?thesis by (simp add: evaluatePlayground_unbound added_def)
  next
    case True
    show ?thesis
    proof (cases "confirmRunAll t = CfgBool True")
      case c: True
      with True show ?thesis by (simp add: evaluatePlayground_confirm added_def)
    next
      case c: False
      with True show ?thesis by (simp add: evaluatePlayground_dispatch added_def)
    qed
  qed
  from d q p evaluatePlayground_confirm [of t] show ?thesis by blast
qed

theorem declined_confirmation_aborts_witness:
  "0 < length (runs prompted) \<and> confirming (runs prompted ! 0)
   \<and> outcome (runs prompted ! 0) = Pending \<and> (None :: string option) \<noteq> Some ''Yes''
   \<and> calls (confirmationAnswered 0 None prompted) = calls prompted
   \<and> outputChannel (confirmationAnswered 0 None prompted) = outputChannel prompted
   \<and> runs (confirmationAnswered 0 None prompted) = [newRun\<lparr>outcome := Resolved False\<rparr>]
   \<and> truthy (connectionString (bound\<lparr>confirmRunAll := CfgBool True\<rparr>))
   \<and> added (bound\<lparr>confirmRunAll := CfgBool True\<rparr>) prompted =
       [ShowModalConfirmation (confirmationMessage ''localhost:27017'')]"
  using declined_confirmation_aborts [of 0 prompted None "bound\<lparr>confirmRunAll := CfgBool True\<rparr>"]
  by (simp add: prompted_def bound_def onActiveConnectionChanged_def
      disconnectFromServiceProvider_def connectToServiceProvider_def localConnection_def
      fresh_def constructed_def truthy_def newRun_def evaluatePlayground_def updateRun_def
      call_def added_def Let_def)

subsection \<open>The session, evaluated\<close>

lemma dispatched_eq:
  "dispatched =
     bound\<lparr>codeToEvaluate := joinNewline playgroundLines,
           calls := calls bound @
             [WithProgress ''Running MongoDB playground...'',
              ExecuteAll (joinNewline playgroundLines)],
           runs := [newRun\<lparr>executing := True\<rparr>]\<rparr>"
  by (simp add: dispatched_def runAllPlaygroundBlocks_def bound_def onActiveConnectionChanged_def
      disconnectFromServiceProvider_def connectToServiceProvider_def localConnection_def
      fresh_def constructed_def truthy_def newRun_def evaluatePlayground_def updateRun_def
      evaluateWithCancelModal_def isPlayground_def getAllText_def playgroundEditor_def
      playgroundDocument_def call_def Let_def)

lemma bound_eq:
  "bound =
     fresh\<lparr>connectionString := Some ''mongodb://localhost:27017'', connectionOptions := Some [],
           activeConnectionModel := Some localConnection,
           activeConnectionName := ''localhost:27017'',
           calls := [DisconnectFromServiceProvider,
                     ConnectToServiceProvider ''mongodb://localhost:27017'' [] ''/extension''],
           awaiting := [DisconnectListener, ConnectListener]\<rparr>"
  by (simp add: bound_def onActiveConnectionChanged_def
      disconnectFromServiceProvider_def connectToServiceProvider_def localConnection_def
      fresh_def constructed_def call_def Let_def)



subsection \<open>A partial run without a stored selection\<close>

text \<open>
  Claim C10. In a playground whose selections are not the single empty selection, while
  the stored selected text is undefined or empty, both selection commands leave the code to
  evaluate and the flag of a partial run as the previous run set them and go on to
  \<^verbatim>\<open>evaluatePlayground\<close>: with a connection string stored and no confirmation required,
  the code of the previous run is sent to the worker.
\<close>

theorem stale_code_dispatched:
  assumes "isPlayground s" and "\<not> nothingSelected s" and "\<not> truthy (selectedText s)"
  shows "runAllOrSelectedPlaygroundBlocks s = evaluatePlayground s
       \<and> runSelectedPlaygroundBlocks s = evaluatePlayground s
       \<and> codeToEvaluate (evaluatePlayground s) = codeToEvaluate s
       \<and> isPartialRun (evaluatePlayground s) = isPartialRun s
       \<and> (truthy (connectionString s) \<and> confirmRunAll s \<noteq> CfgBool True \<longrightarrow>
            added s (runAllOrSelectedPlaygroundBlocks s) =
              [WithProgress ''Running MongoDB playground...'', ExecuteAll (codeToEvaluate s)]
          \<and> added s (runSelectedPlaygroundBlocks s) =
              [WithProgress ''Running MongoDB playground...'', ExecuteAll (codeToEvaluate s)])"
proof -
  have u: "useSelectedText s = s"
    using assms(3) by (cases "selectedText s") (simp_all add: useSelectedText_def truthy_def)
  have a: "runAllOrSelectedPlaygroundBlocks s = evaluatePlayground s"
    using assms(1,2) by (simp add: runAllOrSelectedPlaygroundBlocks_def u)
  have b: "runSelectedPlaygroundBlocks s = evaluatePlayground s"
    using assms(1,2) by (simp add: runSelectedPlaygroundBlocks_def u)
  have c: "codeToEvaluate (evaluatePlayground s) = codeToEvaluate s \<and>
           isPartialRun (evaluatePlayground s) = isPartialRun s"
  proof (cases "truthy (connectionString s)")
    case False
    then show ?thesis by (simp add: evaluatePlayground_unbound)
  next
    case True
    show ?thesis
    proof (cases "confirmRunAll s = CfgBool True")
      case c: True
      with True show ?thesis by (simp add: evaluatePlayground_confirm)
    next
      case c: False
      with True show ?thesis by (simp add: evaluatePlayground_dispatch)
    qed
  qed
  have d: "added s (evaluatePlayground s) =
              [WithProgress ''Running MongoDB playground...'', ExecuteAll (codeToEvaluate s)]"
    if "truthy (connectionString s)" and "confirmRunAll s \<noteq> CfgBool True"
    using that by (simp add: evaluatePlayground_dispatch added_def)
  from a b c d show ?thesis by (simp only:) blast
qed

theorem stale_code_dispatched_witness:
  "isPlayground dispatched \<and> \<not> nothingSelected dispatched \<and> \<not> truthy (selectedText dispatched)
   \<and> truthy (connectionString dispatched) \<and> confirmRunAll dispatched \<noteq> CfgBool True
   \<and> map (getSelectedText dispatched) (selections playgroundEditor) =
       [''db.e.find()'', ''db.b.find()'']
   \<and> added dispatched (runSelectedPlaygroundBlocks dispatched) =
       [WithProgress ''Running MongoDB playground...'', ExecuteAll (joinNewline playgroundLines)]
   \<and> isPartialRun (runSelectedPlaygroundBlocks dispatched) = False"
proof -
  note defs = dispatched_eq bound_eq fresh_def constructed_def isPlayground_def
    nothingSelected_def truthy_def playgroundEditor_def playgroundDocument_def
    getSelectedText_def selectionLine5_def selectionLine2_def selectionInLine5_def
  have h1: "isPlayground dispatched" by (simp add: defs)
  have h2: "\<not> nothingSelected dispatched" by (simp add: defs)
  have h3: "\<not> truthy (selectedText dispatched)" by (simp add: defs)
  have h4: "truthy (connectionString dispatched)" by (simp add: defs)
  have h5: "confirmRunAll dispatched \<noteq> CfgBool True" by (simp add: defs)
  have h6: "map (getSelectedText dispatched) (selections playgroundEditor) =
       [''db.e.find()'', ''db.b.find()'']" by (simp add: defs)
  have h7: "codeToEvaluate dispatched = joinNewline playgroundLines"
    and h8: "isPartialRun dispatched = False" by (simp_all add: defs)
  from stale_code_dispatched [OF h1 h2 h3] h1 h2 h3 h4 h5 h6 h7 h8 show ?thesis
    by (elim conjE) simp
qed

subsection \<open>Results, replies and cancellation\<close>

lemma fold_outputAppendLine:
  "fold (\<lambda>item. outputAppendLine (content item)) items s =
     s\<lparr>outputChannel := outputChannel s @ map content items,
       calls := calls s @ map (\<lambda>item. OutputAppendLine (content item)) items\<rparr>"
proof (induction items arbitrary: s)
  case Nil
  show ?case by simp
next
  case (Cons item items)
  show ?case
    by (simp only: fold_Cons o_apply Cons.IH) (simp add: outputAppendLine_def call_def)
qed

lemma evaluatePlaygroundResumed_eq:
  "evaluatePlaygroundResumed i result s =
     (case result of
        None \<Rightarrow>
          s\<lparr>outputChannel := [], calls := calls s @ [OutputClear, OutputShow],
            runs := (runs s)[i := (case outcome (runs s ! i) of
                       Pending \<Rightarrow> (runs s ! i)\<lparr>outcome := Resolved False\<rparr> | _ \<Rightarrow> runs s ! i)]\<rparr>
      | Some items \<Rightarrow>
          s\<lparr>outputChannel := map content items,
            calls := calls s @
              OutputClear # map (\<lambda>item. OutputAppendLine (content item)) items @ [OutputShow],
            runs := (runs s)[i := (case outcome (runs s ! i) of
                       Pending \<Rightarrow> (runs s ! i)\<lparr>outcome := Resolved True\<rparr> | _ \<Rightarrow> runs s ! i)]\<rparr>)"
  by (cases result)
     (simp_all add: evaluatePlaygroundResumed_def resolveOutcome_def updateRun_def outputShow_def
       outputClear_def call_def fold_outputAppendLine split: Promise.split)

lemma count_OutputClear_appended:
  "count_list (map (\<lambda>item. OutputAppendLine (content item)) items) OutputClear = 0"
  by (induction items) simp_all

lemma cancellationRequested_eq:
  assumes "i < length (runs s)" and "running (runs s ! i)"
  shows "cancellationRequested i s =
     s\<lparr>outputChannel := [],
       calls := calls s @ [CancelAll, OutputClear, OutputShow, OutputClear, OutputShow],
       runs := (runs s)[i := (runs s ! i)\<lparr>modal := Resolved None, outcome := Resolved False\<rparr>]\<rparr>"
  using assms
  by (simp add: cancellationRequested_def running_def resolveModal_def evaluatePlaygroundResumed_eq
      updateRun_def outputShow_def outputClear_def call_def)

lemma executeAllReturned_eq:
  assumes "i < length (runs s)" and "running (runs s ! i)"
  shows "executeAllReturned i result s =
     s\<lparr>outputChannel := (case result of None \<Rightarrow> [] | Some items \<Rightarrow> map content items),
       calls := calls s @
         TrackPlaygroundCodeExecuted result (isPartialRun s) (result = None) #
         (case result of
            None \<Rightarrow> [OutputClear, OutputShow]
          | Some items \<Rightarrow>
              OutputClear # map (\<lambda>item. OutputAppendLine (content item)) items @ [OutputShow]),
       runs := (runs s)[i := (runs s ! i)\<lparr>executing := False, modal := Resolved result,
                 outcome := Resolved (result \<noteq> None)\<rparr>]\<rparr>"
  using assms
  by (cases result)
     (simp_all add: executeAllReturned_def running_def resolveModal_def evaluatePlaygroundResumed_eq
      updateRun_def call_def)



subsection \<open>Run requests while a run is in flight\<close>




subsection \<open>Cancelling a run\<close>



subsection \<open>Delivering a result to the output channel\<close>

lemma replied_eq:
  "replied =
     dispatched\<lparr>outputChannel := [''1'', ''2''],
       calls := calls dispatched @
         [TrackPlaygroundCodeExecuted twoRecords False False,
          OutputClear, OutputAppendLine ''1'', OutputAppendLine ''2'', OutputShow],
       runs := [newRun\<lparr>modal := Resolved twoRecords, outcome := Resolved True\<rparr>]\<rparr>"
proof -
  have r: "0 < length (runs dispatched)" "running (runs dispatched ! 0)"
    by (simp_all add: dispatched_eq running_def newRun_def)
  show ?thesis
    unfolding replied_def executeAllReturned_eq [OF r]
    by (simp add: dispatched_eq bound_eq fresh_def constructed_def twoRecords_def newRun_def)
qed

text \<open>
  Claim C4, as the code has it. When \<^verbatim>\<open>evaluatePlayground\<close> resumes with a result, the
  output channel is cleared once; without a result it is then shown empty, and otherwise
  the content of every record is appended in order and the channel is shown. One delivery
  clears once, however many records there are. A run that ends with the worker's reply
  clears once; a run that is cancelled clears twice, in the cancellation handler and
  again when \<^verbatim>\<open>evaluatePlayground\<close> resumes with no result.
\<close>

theorem result_rendered_with_one_clear:
  "added s (evaluatePlaygroundResumed i result s) =
     (case result of
        None \<Rightarrow> [OutputClear, OutputShow]
      | Some items \<Rightarrow>
          OutputClear # map (\<lambda>item. OutputAppendLine (content item)) items @ [OutputShow])
   \<and> outputChannel (evaluatePlaygroundResumed i result s) =
       (case result of None \<Rightarrow> [] | Some items \<Rightarrow> map content items)
   \<and> count_list (added s (evaluatePlaygroundResumed i result s)) OutputClear = 1
   \<and> (i < length (runs s) \<and> running (runs s ! i) \<longrightarrow>
        added s (executeAllReturned i result s) =
          TrackPlaygroundCodeExecuted result (isPartialRun s) (result = None) #
          added s (evaluatePlaygroundResumed i result s)
      \<and> outputChannel (executeAllReturned i result s) =
          (case result of None \<Rightarrow> [] | Some items \<Rightarrow> map content items)
      \<and> count_list (added s (executeAllReturned i result s)) OutputClear = 1
      \<and> count_list (added s (cancellationRequested i s)) OutputClear = 2
      \<and> outputChannel (cancellationRequested i s) = [])"
proof -
  have a: "added s (evaluatePlaygroundResumed i result s) =
     (case result of
        None \<Rightarrow> [OutputClear, OutputShow]
      | Some items \<Rightarrow>
          OutputClear # map (\<lambda>item. OutputAppendLine (content item)) items @ [OutputShow])"
    by (cases result) (simp_all add: evaluatePlaygroundResumed_eq added_def)
  have b: "outputChannel (evaluatePlaygroundResumed i result s) =
       (case result of None \<Rightarrow> [] | Some items \<Rightarrow> map content items)"
    by (cases result) (simp_all add: evaluatePlaygroundResumed_eq)
  have c: "count_list (added s (evaluatePlaygroundResumed i result s)) OutputClear = 1"
    unfolding a by (cases result) (simp_all add: count_OutputClear_appended)
  have d: "added s (executeAllReturned i result s) =
          TrackPlaygroundCodeExecuted result (isPartialRun s) (result = None) #
          added s (evaluatePlaygroundResumed i result s)
      \<and> outputChannel (executeAllReturned i result s) =
          (case result of None \<Rightarrow> [] | Some items \<Rightarrow> map content items)
      \<and> count_list (added s (executeAllReturned i result s)) OutputClear = 1
      \<and> count_list (added s (cancellationRequested i s)) OutputClear = 2
      \<and> outputChannel (cancellationRequested i s) = []"
    if r: "i < length (runs s)" "running (runs s ! i)"
  proof -
    have x: "added s (executeAllReturned i result s) =
          TrackPlaygroundCodeExecuted result (isPartialRun s) (result = None) #
          added s (evaluatePlaygroundResumed i result s)"
      unfolding a by (simp add: executeAllReturned_eq [OF r] added_def)
    have y: "count_list (added s (executeAllReturned i result s)) OutputClear = 1"
      unfolding x using c by simp
    show ?thesis using x y
      by (simp add: executeAllReturned_eq [OF r] cancellationRequested_eq [OF r] added_def)
  qed
  from a b c d show ?thesis by blast
qed

theorem result_rendered_with_one_clear_witness:
  "0 < length (runs dispatched) \<and> running (runs dispatched ! 0)
   \<and> added dispatched replied =
       [TrackPlaygroundCodeExecuted twoRecords False False,
        OutputClear, OutputAppendLine ''1'', OutputAppendLine ''2'', OutputShow]
   \<and> outputChannel replied = [''1'', ''2'']
   \<and> count_list (added dispatched replied) OutputClear = 1
   \<and> count_list (added dispatched (cancellationRequested 0 dispatched)) OutputClear = 2"
proof -
  have r: "0 < length (runs dispatched)" "running (runs dispatched ! 0)"
    by (simp_all add: dispatched_eq running_def newRun_def)
  from result_rendered_with_one_clear [of dispatched 0 twoRecords, folded replied_def] r
  have "count_list (added dispatched replied) OutputClear = 1
      \<and> count_list (added dispatched (cancellationRequested 0 dispatched)) OutputClear = 2"
    by blast
  with r show ?thesis by (simp add: replied_eq added_def)
qed

text \<open>
  Claim C4, as stated, fails in its last part: a cancelled run clears the output channel
  twice.
\<close>

theorem cancelled_run_clears_twice:
  "map running (runs dispatched) = [True]
   \<and> added dispatched cancelled = [CancelAll, OutputClear, OutputShow, OutputClear, OutputShow]
   \<and> count_list (added dispatched cancelled) OutputClear = 2"
proof -
  have r: "0 < length (runs dispatched)" "running (runs dispatched ! 0)"
    by (simp_all add: dispatched_eq running_def newRun_def)
  have "map running (runs dispatched) = [True]"
    by (simp add: dispatched_eq running_def newRun_def)
  then show ?thesis
    unfolding cancelled_def cancellationRequested_eq [OF r] by (simp add: added_def)
qed

subsection \<open>The stored connection string\<close>






lemma connectionString_updateRun [simp]:
  "connectionString (updateRun i f s) = connectionString s"
  by (simp add: updateRun_def)

lemma connectionString_resolveOutcome [simp]:
  "connectionString (resolveOutcome i b s) = connectionString s"
  by (simp add: resolveOutcome_def)

lemma connectionString_evaluateWithCancelModal [simp]:
  "connectionString (evaluateWithCancelModal i s) = connectionString s"
  by (simp add: evaluateWithCancelModal_def call_def)




subsection \<open>Rebinding the worker\<close>




end
